theory Spec2Isabelle
  imports Complex_Main "HOL-Library.Log_Nat"
begin

section \<open>Data model\<close>

text \<open>
  The program (\<^verbatim>\<open>Fridge.py\<close>) keeps one SQLite table, \<^verbatim>\<open>fridge_items\<close>, and offers five
  operations on it. A calendar date is modelled by its proleptic Gregorian ordinal, as
  Python's \<^verbatim>\<open>date.toordinal()\<close> gives it: \<open>1\<close> is 0001-01-01 and \<open>3652059\<close> is 9999-12-31,
  the last date the type \<^verbatim>\<open>datetime.date\<close> can hold. The difference of two dates in whole
  days, \<^verbatim>\<open>(d1 - d2).days\<close>, is the difference of the ordinals. The table stores a date as
  its ISO-8601 text; \<^verbatim>\<open>isoformat\<close> and \<^verbatim>\<open>fromisoformat\<close> are inverse to each other on dates,
  so the model stores the date itself.

  The column \<^verbatim>\<open>daily_usage REAL\<close> holds a Python float; the field \<open>daily_usage\<close> is the
  real number that float stands for. The division of \<^verbatim>\<open>predict_restock\<close>, whose quotient is
  truncated to a number of days, is rounded as the machine rounds it (\<open>round_float\<close>
  below). The quotient that \<^verbatim>\<open>update_item\<close> stores is kept as the exact quotient of the
  two integers: its rounding decides no branch, and is not part of the model.

  The column \<^verbatim>\<open>id\<close> is assigned by the storage engine and read by no statement of the
  program; it is left out. The rows are kept in insertion order.
\<close>

type_synonym date = int

record item =
  name :: string
  quantity :: int
  threshold :: int
  last_updated :: date
  daily_usage :: real

type_synonym store = "item list"

text \<open>The names of a table are pairwise different (\<^verbatim>\<open>name TEXT UNIQUE\<close>).\<close>

definition unique_names :: "store \<Rightarrow> bool" where
  "unique_names st \<longleftrightarrow> distinct (map name st)"

subsection \<open>What the program prints\<close>

text \<open>
  One constructor for each \<^verbatim>\<open>print\<close> of the operations, with the values it formats.
  \<open>Duplicate_item\<close> is ``Error: Item already exists.'', \<open>Item_not_found\<close> is
  ``Item not found.'', \<open>Insufficient_data\<close> is ``Not enough usage data to predict
  restock.'', \<open>Database_error\<close> is ``Database error: ...'', \<open>Must_be_integers\<close> and
  \<open>Invalid_quantities\<close> are the two messages for text that is not an integer.
  \<open>Header\<close> stands for the two lines above the table of \<^verbatim>\<open>view_items\<close>; the flag of
  \<open>Row\<close> is the mark \<^verbatim>\<open>**LOW**\<close>.
\<close>

datatype message =
    Added string int int
  | Must_be_integers
  | Duplicate_item
  | Database_error
  | Item_not_found
  | Current int int date real
  | Invalid_quantities
  | Updated string int int real
  | Alert string int
  | Deleted string
  | No_items
  | Header
  | Row string int int date real bool
  | Insufficient_data
  | Already_below string
  | Estimate int string
  | Restock_date date

subsection \<open>Exceptions and outcomes\<close>

text \<open>
  \<open>Sqlite_Error\<close> is \<^verbatim>\<open>sqlite3.Error\<close> other than its subclass \<^verbatim>\<open>sqlite3.IntegrityError\<close>,
  which is \<open>Integrity_Error\<close>. \<^verbatim>\<open>OverflowError\<close> and \<^verbatim>\<open>ZeroDivisionError\<close> are not
  subclasses of \<^verbatim>\<open>sqlite3.Error\<close>.
\<close>

datatype exn = Sqlite_Error | Integrity_Error | Overflow_Error | Zero_Division_Error

definition is_sqlite_error :: "exn \<Rightarrow> bool" where
  "is_sqlite_error e \<longleftrightarrow> e = Sqlite_Error \<or> e = Integrity_Error"

text \<open>
  The outcome of one operation: the messages printed, in order; the table afterwards;
  the exception that left the operation uncaught, if any (\<^verbatim>\<open>main\<close> has no handler, so such
  an exception ends the process); and the divisor of every division the operation
  evaluated, in order.
\<close>

record outcome =
  printed :: "message list"
  db :: store
  raised :: "exn option"
  divisors :: "real list"

definition returns :: "message list \<Rightarrow> store \<Rightarrow> real list \<Rightarrow> outcome" where
  "returns ms st ds = \<lparr>printed = ms, db = st, raised = None, divisors = ds\<rparr>"

definition raises :: "message list \<Rightarrow> store \<Rightarrow> exn \<Rightarrow> real list \<Rightarrow> outcome" where
  "raises ms st e ds = \<lparr>printed = ms, db = st, raised = Some e, divisors = ds\<rparr>"

subsection \<open>Text typed by the user\<close>

text \<open>
  A line read by \<^verbatim>\<open>input()\<close> where an integer is expected: empty or blank (\<open>Blank\<close>), the
  text of an integer (\<open>Number\<close>, any size: Python's integers are unbounded), or anything
  else (\<open>Garbage\<close>), on which \<^verbatim>\<open>int()\<close> raises \<^verbatim>\<open>ValueError\<close>.
\<close>

datatype text_input = Blank | Number int | Garbage

text \<open>\<^verbatim>\<open>int(s)\<close>: \<open>None\<close> is \<^verbatim>\<open>ValueError\<close>, which both callers catch at once.\<close>

fun parse_int :: "text_input \<Rightarrow> int option" where
  "parse_int (Number n) = Some n"
| "parse_int Blank = None"
| "parse_int Garbage = None"

text \<open>\<^verbatim>\<open>int(s) if s.strip() else old\<close> of \<^verbatim>\<open>update_item\<close>.\<close>

fun parse_or_keep :: "text_input \<Rightarrow> int \<Rightarrow> int option" where
  "parse_or_keep Blank old = Some old"
| "parse_or_keep (Number n) old = Some n"
| "parse_or_keep Garbage old = None"

section \<open>The persistence layer\<close>

text \<open>
  Every statement is sent with \<^verbatim>\<open>cursor.execute\<close>, which can raise \<^verbatim>\<open>sqlite3.Error\<close> for
  reasons outside the program (the file is locked, unreadable or full). \<open>Fails\<close> is the
  case where the statement raises before it has any effect; \<open>Works\<close> is the case where
  the storage engine does its work. A statement that writes is taken together with the
  \<^verbatim>\<open>conn.commit()\<close> that follows it.
\<close>

datatype storage = Works | Fails

text \<open>
  An \<^verbatim>\<open>INTEGER\<close> of SQLite has 64 bits. Binding a Python integer outside this range raises
  \<^verbatim>\<open>OverflowError\<close> (``Python int too large to convert to SQLite INTEGER''), before the
  statement runs.
\<close>

definition in_int64 :: "int \<Rightarrow> bool" where
  "in_int64 n \<longleftrightarrow> - (2 ^ 63) \<le> n \<and> n < 2 ^ 63"

text \<open>\<^verbatim>\<open>INSERT INTO fridge_items(...) VALUES (?, ?, ?, ?, ?)\<close> and commit.\<close>

definition sql_insert :: "storage \<Rightarrow> store \<Rightarrow> item \<Rightarrow> exn + store" where
  "sql_insert sto st r =
     (if sto = Fails then Inl Sqlite_Error
      else if \<not> (in_int64 (quantity r) \<and> in_int64 (threshold r)) then Inl Overflow_Error
      else if name r \<in> set (map name st) then Inl Integrity_Error
      else Inr (st @ [r]))"

text \<open>\<^verbatim>\<open>SELECT ... FROM fridge_items WHERE name=?\<close> and \<^verbatim>\<open>fetchone()\<close>.\<close>

definition sql_select_one :: "storage \<Rightarrow> store \<Rightarrow> string \<Rightarrow> exn + item option" where
  "sql_select_one sto st nm =
     (if sto = Fails then Inl Sqlite_Error else Inr (find (\<lambda>r. name r = nm) st))"

text \<open>\<^verbatim>\<open>SELECT ... FROM fridge_items\<close> and \<^verbatim>\<open>fetchall()\<close>.\<close>

definition sql_select_all :: "storage \<Rightarrow> store \<Rightarrow> exn + item list" where
  "sql_select_all sto st = (if sto = Fails then Inl Sqlite_Error else Inr st)"

text \<open>
  \<^verbatim>\<open>UPDATE fridge_items SET quantity=?, threshold=?, last_updated=?, daily_usage=? WHERE name=?\<close>
  and commit.
\<close>

definition sql_update ::
  "storage \<Rightarrow> store \<Rightarrow> string \<Rightarrow> int \<Rightarrow> int \<Rightarrow> date \<Rightarrow> real \<Rightarrow> exn + store" where
  "sql_update sto st nm q t d u =
     (if sto = Fails then Inl Sqlite_Error
      else if \<not> (in_int64 q \<and> in_int64 t) then Inl Overflow_Error
      else Inr (map (\<lambda>r. if name r = nm
                          then r\<lparr>quantity := q, threshold := t, last_updated := d, daily_usage := u\<rparr>
                          else r) st))"

text \<open>
  \<^verbatim>\<open>DELETE FROM fridge_items WHERE name=?\<close>: the number of rows removed
  (\<^verbatim>\<open>cursor.rowcount\<close>) and the table without them.
\<close>

definition sql_delete :: "storage \<Rightarrow> store \<Rightarrow> string \<Rightarrow> exn + nat \<times> store" where
  "sql_delete sto st nm =
     (if sto = Fails then Inl Sqlite_Error
      else Inr (length (filter (\<lambda>r. name r = nm) st), filter (\<lambda>r. name r \<noteq> nm) st))"

section \<open>Arithmetic of the host language\<close>

text \<open>
  Python's \<^verbatim>\<open>a / b\<close> on two integers (line 81): \<^verbatim>\<open>ZeroDivisionError\<close> when the divisor is
  zero, and the quotient otherwise.
\<close>

definition py_truediv :: "real \<Rightarrow> real \<Rightarrow> exn + real" where
  "py_truediv a b = (if b = 0 then Inl Zero_Division_Error else Inr (a / b))"

text \<open>
  A Python float is an IEEE 754 binary64 number: 53 significant bits, results rounded to
  the nearest representable number, ties to the one with an even significand.
  \<open>binade x\<close> is the exponent \<open>e\<close> with \<open>2 ^ e \<le> x < 2 ^ (e + 1)\<close>, for \<open>x > 0\<close>;
  \<open>round_float x\<close> is the multiple of \<open>2 ^ (e - 52)\<close> nearest to \<open>x\<close>. The bounds of the
  exponent are not part of the model, and no outcome of \<^verbatim>\<open>predict_restock\<close> depends on
  them. A quotient of an integer by a float is rounded to zero only when the divisor
  is beyond the range of a float. A quotient below \<open>2 ^ -1022\<close> has fewer bits on the
  machine, and the same sign and the same floor. A quotient of \<open>2 ^ 1024\<close> or more is
  infinite on the machine, where \<^verbatim>\<open>int()\<close> raises \<^verbatim>\<open>OverflowError\<close>; here it is a number of
  days far beyond the last date, where \<open>date_plus_days\<close> raises \<^verbatim>\<open>OverflowError\<close>.
\<close>

definition binade :: "real \<Rightarrow> int" where
  "binade x = (if 1 \<le> x then bitlen \<lfloor>x\<rfloor> - 1 else - bitlen (\<lceil>1 / x\<rceil> - 1))"

definition round_half_even :: "real \<Rightarrow> int" where
  "round_half_even y =
     (if y - of_int \<lfloor>y\<rfloor> < 1 / 2 then \<lfloor>y\<rfloor>
      else if 1 / 2 < y - of_int \<lfloor>y\<rfloor> then \<lfloor>y\<rfloor> + 1
      else if even \<lfloor>y\<rfloor> then \<lfloor>y\<rfloor> else \<lfloor>y\<rfloor> + 1)"

definition round_float :: "real \<Rightarrow> real" where
  "round_float x =
     (if x = 0 then 0
      else sgn x * of_int (round_half_even (\<bar>x\<bar> / 2 powi (binade \<bar>x\<bar> - 52))) *
           2 powi (binade \<bar>x\<bar> - 52))"

text \<open>
  The conversion of an integer operand to a float, and \<^verbatim>\<open>a / b\<close> on floats (line 138,
  where \<^verbatim>\<open>quantity - threshold\<close> is an integer and \<^verbatim>\<open>daily_usage\<close> a float).
\<close>

definition py_float :: "int \<Rightarrow> real" where
  "py_float n = round_float (real_of_int n)"

definition float_truediv :: "real \<Rightarrow> real \<Rightarrow> exn + real" where
  "float_truediv a b = (if b = 0 then Inl Zero_Division_Error else Inr (round_float (a / b)))"

text \<open>Python's \<^verbatim>\<open>int(x)\<close> on a float: truncation towards zero.\<close>

definition py_int :: "real \<Rightarrow> int" where
  "py_int x = (if 0 \<le> x then \<lfloor>x\<rfloor> else \<lceil>x\<rceil>)"

text \<open>
  \<^verbatim>\<open>d + timedelta(days=n)\<close>: \<^verbatim>\<open>timedelta\<close> refuses more than 999999999 days, and the sum
  must be a date between 0001-01-01 and 9999-12-31; both raise \<^verbatim>\<open>OverflowError\<close>.
\<close>

definition max_ordinal :: int where
  "max_ordinal = 3652059"

definition valid_date :: "date \<Rightarrow> bool" where
  "valid_date d \<longleftrightarrow> 1 \<le> d \<and> d \<le> max_ordinal"

definition date_plus_days :: "date \<Rightarrow> int \<Rightarrow> exn + date" where
  "date_plus_days d n =
     (if 999999999 < \<bar>n\<bar> then Inl Overflow_Error
      else if \<not> valid_date (d + n) then Inl Overflow_Error
      else Inr (d + n))"

section \<open>The operations\<close>

text \<open>
  Each operation takes the state of the storage for each statement it sends, today's date
  (\<^verbatim>\<open>datetime.now().date()\<close>), the table, and what the user typed.
\<close>

definition add_item ::
  "storage \<Rightarrow> date \<Rightarrow> store \<Rightarrow> string \<Rightarrow> text_input \<Rightarrow> text_input \<Rightarrow> outcome" where
  "add_item sto today st nm qty_input thresh_input =
     (case (parse_int qty_input, parse_int thresh_input) of
        (Some qty, Some thresh) \<Rightarrow>
          (case sql_insert sto st
                  \<lparr>name = nm, quantity = qty, threshold = thresh,
                   last_updated = today, daily_usage = 0\<rparr> of
             Inr st' \<Rightarrow> returns [Added nm qty thresh] st' []
           | Inl e \<Rightarrow>
               if e = Integrity_Error then returns [Duplicate_item] st []
               else if is_sqlite_error e then returns [Database_error] st []
               else raises [] st e [])
      | _ \<Rightarrow> returns [Must_be_integers] st [])"

text \<open>
  \<^verbatim>\<open>update_item\<close> sends two statements: the \<^verbatim>\<open>SELECT\<close>, outside any \<^verbatim>\<open>try\<close>, and the
  \<^verbatim>\<open>UPDATE\<close>, inside one. The clock is read twice, before and after the computation of the
  rate with nothing in between; both readings are \<open>today\<close>.
\<close>

definition update_item ::
  "storage \<Rightarrow> storage \<Rightarrow> date \<Rightarrow> store \<Rightarrow> string \<Rightarrow> text_input \<Rightarrow> text_input \<Rightarrow> outcome" where
  "update_item sel upd today st nm new_qty_input new_thresh_input =
     (case sql_select_one sel st nm of
        Inl e \<Rightarrow> raises [] st e []
      | Inr None \<Rightarrow> returns [Item_not_found] st []
      | Inr (Some r) \<Rightarrow>
          (let old_quantity = quantity r;
               old_threshold = threshold r;
               old_daily_usage = daily_usage r;
               shown = [Current old_quantity old_threshold (last_updated r) old_daily_usage]
           in case (parse_or_keep new_qty_input old_quantity,
                    parse_or_keep new_thresh_input old_threshold) of
                (Some new_quantity, Some new_threshold) \<Rightarrow>
                  (let days_passed = today - last_updated r;
                       recompute = (0 < days_passed \<and> new_quantity \<noteq> old_quantity);
                       ds = (if recompute then [real_of_int days_passed] else [])
                   in case (if recompute
                            then py_truediv (real_of_int (old_quantity - new_quantity))
                                            (real_of_int days_passed)
                            else Inr old_daily_usage) of
                        Inl e \<Rightarrow> raises shown st e ds
                      | Inr du \<Rightarrow>
                          (case sql_update upd st nm new_quantity new_threshold today du of
                             Inl e \<Rightarrow>
                               if is_sqlite_error e
                               then returns (shown @ [Database_error]) st ds
                               else raises shown st e ds
                           | Inr st' \<Rightarrow>
                               returns
                                 (shown @ [Updated nm new_quantity new_threshold du] @
                                  (if new_quantity < new_threshold
                                   then [Alert nm new_threshold] else []))
                                 st' ds))
              | _ \<Rightarrow> returns (shown @ [Invalid_quantities]) st []))"

definition delete_item :: "storage \<Rightarrow> store \<Rightarrow> string \<Rightarrow> outcome" where
  "delete_item sto st nm =
     (case sql_delete sto st nm of
        Inl e \<Rightarrow> raises [] st e []
      | Inr (rowcount, st') \<Rightarrow>
          if rowcount = 0 then returns [Item_not_found] st' []
          else returns [Deleted nm] st' [])"

definition view_items :: "storage \<Rightarrow> store \<Rightarrow> outcome" where
  "view_items sto st =
     (case sql_select_all sto st of
        Inl e \<Rightarrow> raises [] st e []
      | Inr rows \<Rightarrow>
          if rows = [] then returns [No_items] st []
          else returns
                 (Header #
                  map (\<lambda>r. Row (name r) (quantity r) (threshold r) (last_updated r)
                              (daily_usage r) (quantity r < threshold r)) rows)
                 st [])"

definition predict_restock :: "storage \<Rightarrow> date \<Rightarrow> store \<Rightarrow> string \<Rightarrow> outcome" where
  "predict_restock sto today st nm =
     (case sql_select_one sto st nm of
        Inl e \<Rightarrow> raises [] st e []
      | Inr None \<Rightarrow> returns [Item_not_found] st []
      | Inr (Some r) \<Rightarrow>
          if daily_usage r \<le> 0 then returns [Insufficient_data] st []
          else
            (case float_truediv (py_float (quantity r - threshold r)) (daily_usage r) of
               Inl e \<Rightarrow> raises [] st e [daily_usage r]
             | Inr days_left \<Rightarrow>
                 if days_left < 0 then returns [Already_below nm] st [daily_usage r]
                 else
                   (case date_plus_days today (py_int days_left) of
                      Inl e \<Rightarrow> raises [] st e [daily_usage r]
                    | Inr restock_date \<Rightarrow>
                        returns [Estimate (py_int days_left) nm, Restock_date restock_date]
                                st [daily_usage r])))"

section \<open>Vocabulary of the statements\<close>

text \<open>The name a line of the table of \<^verbatim>\<open>view_items\<close> is about; the other messages have none.\<close>

fun row_name :: "message \<Rightarrow> string option" where
  "row_name (Row n q t d u low) = Some n"
| "row_name m = None"

text \<open>A row named ``milk'', for the concrete tables of the examples.\<close>

definition milk :: "int \<Rightarrow> int \<Rightarrow> date \<Rightarrow> real \<Rightarrow> item" where
  "milk q t d u =
     \<lparr>name = ''milk'', quantity = q, threshold = t, last_updated = d, daily_usage = u\<rparr>"

section \<open>Facts about the persistence layer\<close>

lemma find_name_None: "find (\<lambda>r. name r = nm) st = None \<longleftrightarrow> nm \<notin> set (map name st)"
  by (induction st) auto

lemma find_unique:
  "unique_names st \<Longrightarrow> r \<in> set st \<Longrightarrow> find (\<lambda>x. name x = name r) st = Some r"
  unfolding unique_names_def by (induction st) auto

lemma filter_absent:
  "nm \<notin> set (map name st) \<Longrightarrow> filter (\<lambda>x. name x \<noteq> nm) st = st"
  by (induction st) auto

lemma filter_unique:
  "unique_names st \<Longrightarrow> r \<in> set st \<Longrightarrow> filter (\<lambda>x. name x \<noteq> name r) st = remove1 r st"
  unfolding unique_names_def
proof (induction st)
  case Nil
  then show ?case by simp
next
  case (Cons a st)
  show ?case
  proof (cases "a = r")
    case True
    with Cons.prems have "name r \<notin> set (map name st)" by simp
    then have "filter (\<lambda>x. name x \<noteq> name r) st = st"
      by (rule filter_absent)
    with True show ?thesis by simp
  next
    case False
    with Cons.prems have "r \<in> set st" "name a \<noteq> name r" by auto
    with Cons show ?thesis using False by simp
  qed
qed

lemma name_remove1:
  "unique_names st \<Longrightarrow> r \<in> set st \<Longrightarrow> name r \<notin> set (map name (remove1 r st))"
proof -
  assume "unique_names st" "r \<in> set st"
  then have "remove1 r st = filter (\<lambda>x. name x \<noteq> name r) st"
    by (simp add: filter_unique)
  then show ?thesis by auto
qed

lemma count_absent:
  "nm \<notin> set (map name st) \<Longrightarrow> filter (\<lambda>r. name r = nm) st = []"
  by (induction st) auto

lemma count_present:
  "r \<in> set st \<Longrightarrow> filter (\<lambda>x. name x = name r) st \<noteq> []"
  by (induction st) auto

lemma sql_select_one_Works [simp]:
  "sql_select_one Works st nm = Inr (find (\<lambda>r. name r = nm) st)"
  by (simp add: sql_select_one_def)

lemma sql_select_one_Fails [simp]: "sql_select_one Fails st nm = Inl Sqlite_Error"
  by (simp add: sql_select_one_def)

lemma sql_select_all_Works [simp]: "sql_select_all Works st = Inr st"
  by (simp add: sql_select_all_def)

section \<open>Facts about the arithmetic\<close>

lemma binade_lower: assumes "0 < x" shows "2 powi binade x \<le> x"
proof (cases "1 \<le> x")
  case True
  then have pos: "0 < \<lfloor>x\<rfloor>" by simp
  from bitlen_bounds [OF pos] have "2 ^ nat (bitlen \<lfloor>x\<rfloor> - 1) \<le> \<lfloor>x\<rfloor>" by simp
  then have "real_of_int (2 ^ nat (bitlen \<lfloor>x\<rfloor> - 1)) \<le> real_of_int \<lfloor>x\<rfloor>"
    by (simp only: of_int_le_iff)
  also have "\<dots> \<le> x" by simp
  finally have "2 ^ nat (bitlen \<lfloor>x\<rfloor> - 1) \<le> x" by simp
  moreover from pos have "0 \<le> bitlen \<lfloor>x\<rfloor> - 1"
    by (simp add: bitlen_alt_def)
  ultimately show ?thesis using True
    by (simp add: binade_def power_int_nonneg_exp)
next
  case False
  with assms have x: "0 < x" "x < 1" by simp_all
  then have "1 < 1 / x" by simp
  then have pos: "0 < \<lceil>1 / x\<rceil> - 1" by linarith
  let ?b = "bitlen (\<lceil>1 / x\<rceil> - 1)"
  from bitlen_bounds [OF pos] have "\<lceil>1 / x\<rceil> - 1 < 2 ^ nat ?b" by simp
  then have "\<lceil>1 / x\<rceil> \<le> 2 ^ nat ?b" by simp
  then have "real_of_int \<lceil>1 / x\<rceil> \<le> real_of_int (2 ^ nat ?b)"
    by (simp only: of_int_le_iff)
  then have "1 / x \<le> 2 ^ nat ?b" by (simp add: ceiling_le_iff)
  with x have "1 \<le> x * 2 ^ nat ?b"
    by (simp add: field_simps)
  then have "1 / 2 ^ nat ?b \<le> x"
    by (simp add: field_simps)
  moreover have "0 \<le> ?b" by (rule bitlen_nonneg)
  ultimately show ?thesis using False
    by (simp add: binade_def power_int_minus power_int_nonneg_exp field_simps)
qed

lemma binade_upper: assumes "0 < x" shows "x < 2 powi (binade x + 1)"
proof (cases "1 \<le> x")
  case True
  then have pos: "0 < \<lfloor>x\<rfloor>" by simp
  let ?b = "bitlen \<lfloor>x\<rfloor>"
  from bitlen_bounds [OF pos] have "\<lfloor>x\<rfloor> < 2 ^ nat ?b" by simp
  then have "\<lfloor>x\<rfloor> + 1 \<le> 2 ^ nat ?b" by simp
  then have "real_of_int (\<lfloor>x\<rfloor> + 1) \<le> real_of_int (2 ^ nat ?b)"
    by (simp only: of_int_le_iff)
  moreover have "x < real_of_int (\<lfloor>x\<rfloor> + 1)" by linarith
  ultimately have "x < real_of_int (2 ^ nat ?b)" by (rule less_le_trans [rotated])
  then have "x < 2 ^ nat ?b" by simp
  moreover have "0 \<le> ?b" by (rule bitlen_nonneg)
  ultimately show ?thesis using True
    by (simp add: binade_def power_int_nonneg_exp)
next
  case False
  with assms have x: "0 < x" "x < 1" by simp_all
  then have "1 < 1 / x" by simp
  then have pos: "0 < \<lceil>1 / x\<rceil> - 1" by linarith
  let ?b = "bitlen (\<lceil>1 / x\<rceil> - 1)"
  from pos have b: "1 \<le> ?b" by (simp add: bitlen_alt_def)
  from bitlen_bounds [OF pos] have "2 ^ nat (?b - 1) \<le> \<lceil>1 / x\<rceil> - 1" by simp
  then have "real_of_int (2 ^ nat (?b - 1)) \<le> real_of_int (\<lceil>1 / x\<rceil> - 1)"
    by (simp only: of_int_le_iff)
  moreover have "real_of_int (\<lceil>1 / x\<rceil> - 1) < 1 / x" by linarith
  ultimately have "real_of_int (2 ^ nat (?b - 1)) < 1 / x" by (rule le_less_trans)
  then have "2 ^ nat (?b - 1) < 1 / x" by simp
  with x have "x * 2 ^ nat (?b - 1) < 1"
    by (simp add: field_simps)
  then have "x < 1 / 2 ^ nat (?b - 1)"
    by (simp add: field_simps)
  moreover have "(2::real) powi (- ?b + 1) = 1 / 2 ^ nat (?b - 1)"
  proof -
    have "(2::real) powi (- ?b + 1) = inverse (2 powi (?b - 1))"
      by (simp flip: power_int_minus)
    also from b have "\<dots> = inverse (2 ^ nat (?b - 1))"
      by (simp add: power_int_nonneg_exp)
    finally show ?thesis by (simp add: field_simps)
  qed
  ultimately show ?thesis using False
    by (simp add: binade_def)
qed

lemma round_half_even_ge: "1 \<le> y \<Longrightarrow> 1 \<le> round_half_even y"
proof -
  assume "1 \<le> y"
  then have "1 \<le> \<lfloor>y\<rfloor>" by simp
  then show ?thesis by (simp add: round_half_even_def)
qed

lemma round_half_even_of_int [simp]: "round_half_even (of_int m) = m"
  by (simp add: round_half_even_def)

lemma round_float_sgn: "sgn (round_float x) = sgn x"
proof (cases "x = 0")
  case True
  then show ?thesis by (simp add: round_float_def)
next
  case False
  let ?u = "(2::real) powi (binade \<bar>x\<bar> - 52)"
  have u: "0 < ?u" by simp
  from False have "2 powi binade \<bar>x\<bar> \<le> \<bar>x\<bar>" by (intro binade_lower) simp
  moreover have "(2::real) powi binade \<bar>x\<bar> = ?u * 2 ^ 52"
    by (simp add: power_int_diff)
  ultimately have "?u * 2 ^ 52 \<le> \<bar>x\<bar>" by simp
  with u have "2 ^ 52 \<le> \<bar>x\<bar> / ?u"
    by (subst pos_le_divide_eq) (simp_all add: mult.commute)
  moreover have "(1::real) \<le> 2 ^ 52" by simp
  ultimately have "1 \<le> \<bar>x\<bar> / ?u" by (rule order_trans [rotated])
  then have "1 \<le> round_half_even (\<bar>x\<bar> / ?u)" by (rule round_half_even_ge)
  then have "0 < real_of_int (round_half_even (\<bar>x\<bar> / ?u))" by simp
  with u False show ?thesis
    by (simp add: round_float_def sgn_mult)
qed

lemma round_float_neg: "x < 0 \<Longrightarrow> round_float x < 0"
  using round_float_sgn [of x] by (simp add: sgn_if split: if_splits)

lemma round_float_nonneg: "0 \<le> x \<Longrightarrow> 0 \<le> round_float x"
  using round_float_sgn [of x] by (simp add: sgn_if split: if_splits)

lemma round_float_of_int:
  assumes "\<bar>n\<bar> < 2 ^ 53"
  shows "round_float (of_int n) = of_int n"
proof (cases "n = 0")
  case True
  then show ?thesis by (simp add: round_float_def)
next
  case False
  then have pos: "0 < \<bar>n\<bar>" by simp
  let ?b = "bitlen \<bar>n\<bar>"
  from pos have "1 \<le> \<bar>n\<bar>" by simp
  then have "1 \<le> real_of_int \<bar>n\<bar>" by (simp only: of_int_1_le_iff)
  then have e: "binade \<bar>real_of_int n\<bar> = ?b - 1"
    by (simp add: binade_def flip: of_int_abs)
  from assms have "?b \<le> 53" by (simp add: bitlen_le_iff_power)
  then have k: "0 \<le> 53 - ?b" by simp
  have "(2::real) powi (?b - 1 - 52) = inverse (2 powi (53 - ?b))"
    by (simp flip: power_int_minus)
  also have "\<dots> = inverse (2 ^ nat (53 - ?b))"
    using k by (simp add: power_int_nonneg_exp)
  finally have u: "(2::real) powi (?b - 1 - 52) = inverse (2 ^ nat (53 - ?b))" .
  have q: "\<bar>real_of_int n\<bar> / inverse (2 ^ nat (53 - ?b)) = of_int (\<bar>n\<bar> * 2 ^ nat (53 - ?b))"
    by (simp add: field_simps)
  have "round_float (of_int n) =
          sgn (real_of_int n) * of_int (\<bar>n\<bar> * 2 ^ nat (53 - ?b)) * inverse (2 ^ nat (53 - ?b))"
    using False unfolding round_float_def e u q by (simp only: round_half_even_of_int of_int_eq_0_iff if_False)
  also have "\<dots> = sgn (real_of_int n) * \<bar>real_of_int n\<bar>"
    by (simp add: field_simps)
  also have "\<dots> = of_int n"
    by (simp add: sgn_if)
  finally show ?thesis .
qed

lemma round_float_numeral [simp]:
  "numeral k < (9007199254740992::int) \<Longrightarrow> round_float (numeral k) = numeral k"
  "numeral k < (9007199254740992::int) \<Longrightarrow> round_float (- numeral k) = - numeral k"
  "round_float 0 = 0" "round_float 1 = 1"
  using round_float_of_int [of "numeral k"] round_float_of_int [of "- numeral k"]
    round_float_of_int [of 0] round_float_of_int [of 1]
  by simp_all

lemma bitlen_4: "bitlen 4 = 3"
proof (rule antisym)
  show "bitlen 4 \<le> 3" by (simp add: bitlen_le_iff_power)
  show "3 \<le> bitlen 4" by (simp add: bitlen_ge_iff_power)
qed

lemma bitlen_6: "bitlen 6 = 3"
proof (rule antisym)
  show "bitlen 6 \<le> 3" by (simp add: bitlen_le_iff_power)
  show "3 \<le> bitlen 6" by (simp add: bitlen_ge_iff_power)
qed

text \<open>
  Two quotients that are not representable. The float \<open>0.2\<close> is
  \<open>3602879701896397 / 2 ^ 54\<close>, so that \<open>1 / 0.2\<close> is \<open>2 ^ 54 / 3602879701896397\<close>: it is
  below \<open>5\<close> and is rounded up to \<open>5\<close>. The float of \<open>9 / 7\<close> is
  \<open>5790342378047781 / 2 ^ 52\<close>, and \<open>9\<close> divided by it stays below \<open>7\<close> after rounding.
\<close>

lemma round_float_examples:
  "round_float (18014398509481984 / 3602879701896397) = 5"
  "\<lfloor>(18014398509481984::real) / 3602879701896397\<rfloor> = 4"
  "\<lfloor>round_float (9 / (5790342378047781 / 4503599627370496))\<rfloor> = 6"
  by (simp_all add: round_float_def binade_def round_half_even_def bitlen_4 bitlen_6)

lemma below_threshold_negative:
  assumes "quantity r < threshold r" "0 < daily_usage r"
  shows "round_float (py_float (quantity r - threshold r) / daily_usage r) < 0"
proof -
  from assms(1) have "real_of_int (quantity r - threshold r) < 0" by simp
  then have "py_float (quantity r - threshold r) < 0"
    unfolding py_float_def by (rule round_float_neg)
  with assms(2) have "py_float (quantity r - threshold r) / daily_usage r < 0"
    by (simp add: divide_neg_pos)
  then show ?thesis by (rule round_float_neg)
qed

section \<open>Adding an item\<close>

lemma add_item_success:
  "printed (add_item sto today st nm qi ti) = [Added nm q t] \<Longrightarrow>
   nm \<notin> set (map name st) \<and>
   db (add_item sto today st nm qi ti) =
     st @ [\<lparr>name = nm, quantity = q, threshold = t, last_updated = today, daily_usage = 0\<rparr>]"
  by (auto simp: add_item_def sql_insert_def returns_def raises_def
           split: option.splits if_splits)

lemma filter_rows_absent:
  "nm \<notin> set (map name st) \<Longrightarrow>
   filter (\<lambda>m. row_name m = Some nm)
     (map (\<lambda>r. Row (name r) (quantity r) (threshold r) (last_updated r)
                 (daily_usage r) (quantity r < threshold r)) st) = []"
  by (induction st) auto

text \<open>
  Claim C5, as amended. When the name is already in the table, \<^verbatim>\<open>add_item\<close> leaves the
  table as it was, whatever was typed and whether or not the storage works; and when the
  storage works and the quantity and the threshold fit the 64-bit \<^verbatim>\<open>INTEGER\<close> of the
  storage, it prints ``Error: Item already exists.'' (\<open>Duplicate_item\<close>) and nothing
  else, and no exception leaves it.
\<close>

theorem add_item_duplicate:
  "nm \<in> set (map name st) \<Longrightarrow>
     db (add_item sto today st nm qty_input thresh_input) = st \<and>
     (in_int64 q \<and> in_int64 t \<longrightarrow>
        add_item Works today st nm (Number q) (Number t) = returns [Duplicate_item] st [])"
  by (auto simp: add_item_def sql_insert_def returns_def raises_def is_sqlite_error_def
           split: option.splits)

theorem add_item_duplicate_witness:
  "''milk'' \<in> set (map name [milk 1 2 739924 0]) \<and>
   db (add_item Fails 739925 [milk 1 2 739924 0] ''milk'' Garbage Blank) = [milk 1 2 739924 0] \<and>
   in_int64 4 \<and> in_int64 3 \<and>
   add_item Works 739925 [milk 1 2 739924 0] ''milk'' (Number 4) (Number 3) =
     returns [Duplicate_item] [milk 1 2 739924 0] []"
proof -
  have present: "''milk'' \<in> set (map name [milk 1 2 739924 0])"
    by (simp add: milk_def)
  have range: "in_int64 4 \<and> in_int64 3"
    by (simp add: in_int64_def)
  from add_item_duplicate [OF present, of Fails 739925 Garbage Blank 4 3] present range
  show ?thesis by simp
qed

text \<open>
  Claim C5 as it was stated fails on a quantity outside the 64-bit range: with ``milk''
  in the table, adding ``milk'' with quantity \<open>2 ^ 63\<close> prints nothing and leaves
  \<^verbatim>\<open>add_item\<close> with \<^verbatim>\<open>OverflowError\<close>, which neither \<^verbatim>\<open>except\<close> clause catches.
\<close>

theorem add_item_duplicate_counterexample:
  "''milk'' \<in> set (map name [milk 1 2 739924 0]) \<and>
   printed (add_item Works 739925 [milk 1 2 739924 0] ''milk'' (Number (2 ^ 63)) (Number 2)) = [] \<and>
   raised (add_item Works 739925 [milk 1 2 739924 0] ''milk'' (Number (2 ^ 63)) (Number 2)) =
     Some Overflow_Error"
  by (simp add: milk_def add_item_def sql_insert_def in_int64_def raises_def is_sqlite_error_def)

text \<open>
  Claim C6. When the name is not in the table, the storage works and the quantity \<open>q\<close>
  and the threshold \<open>t\<close> typed fit the 64-bit \<^verbatim>\<open>INTEGER\<close>, \<^verbatim>\<open>add_item\<close> succeeds (it prints
  ``Item ... added'' and raises nothing), and \<^verbatim>\<open>view_items\<close> then prints exactly one line
  for the new name, with \<open>q\<close>, \<open>t\<close>, today's date as \<^verbatim>\<open>last_updated\<close> and \<open>0\<close> as
  \<^verbatim>\<open>daily_usage\<close>. And every \<^verbatim>\<open>add_item\<close> that succeeded, whatever was typed, printed the
  name, the quantity and the threshold that were typed, for a name that was not in the
  table, and is followed by that same single line of \<^verbatim>\<open>view_items\<close>.
\<close>

theorem add_then_view:
  "(nm \<notin> set (map name st) \<and> in_int64 q \<and> in_int64 t \<longrightarrow>
      printed (add_item Works today st nm (Number q) (Number t)) = [Added nm q t] \<and>
      raised (add_item Works today st nm (Number q) (Number t)) = None \<and>
      filter (\<lambda>m. row_name m = Some nm)
        (printed (view_items Works (db (add_item Works today st nm (Number q) (Number t))))) =
        [Row nm q t today 0 (q < t)]) \<and>
   (printed (add_item sto today st nm qi ti) = [Added nm' q' t'] \<longrightarrow>
      nm' = nm \<and> parse_int qi = Some q' \<and> parse_int ti = Some t' \<and>
      nm \<notin> set (map name st) \<and>
      filter (\<lambda>m. row_name m = Some nm)
        (printed (view_items Works (db (add_item sto today st nm qi ti)))) =
        [Row nm q' t' today 0 (q' < t')])"
proof (intro conjI impI)
  assume ok: "nm \<notin> set (map name st) \<and> in_int64 q \<and> in_int64 t"
  then show added: "printed (add_item Works today st nm (Number q) (Number t)) = [Added nm q t]"
    by (simp add: add_item_def sql_insert_def returns_def)
  from ok show "raised (add_item Works today st nm (Number q) (Number t)) = None"
    by (simp add: add_item_def sql_insert_def returns_def)
  from add_item_success [OF added] filter_rows_absent [of nm st]
  show "filter (\<lambda>m. row_name m = Some nm)
        (printed (view_items Works (db (add_item Works today st nm (Number q) (Number t))))) =
        [Row nm q t today 0 (q < t)]"
    by (simp add: view_items_def returns_def)
next
  assume added: "printed (add_item sto today st nm qi ti) = [Added nm' q' t']"
  then show typed: "nm' = nm" "parse_int qi = Some q'" "parse_int ti = Some t'"
    by (auto simp: add_item_def sql_insert_def returns_def raises_def
             split: option.splits if_splits)
  from added typed have added': "printed (add_item sto today st nm qi ti) = [Added nm q' t']"
    by simp
  from add_item_success [OF added'] show "nm \<notin> set (map name st)"
    by simp
  from add_item_success [OF added'] filter_rows_absent [of nm st]
  show "filter (\<lambda>m. row_name m = Some nm)
        (printed (view_items Works (db (add_item sto today st nm qi ti)))) =
        [Row nm q' t' today 0 (q' < t')]"
    by (simp add: view_items_def returns_def)
qed

theorem add_then_view_witness:
  "''eggs'' \<notin> set (map name [milk 1 2 739924 0]) \<and> in_int64 12 \<and> in_int64 (- 6) \<and>
   printed (add_item Works 739925 [milk 1 2 739924 0] ''eggs'' (Number 12) (Number (- 6))) =
     [Added ''eggs'' 12 (- 6)] \<and>
   parse_int (Number 12) = Some 12 \<and> parse_int (Number (- 6)) = Some (- 6) \<and>
   filter (\<lambda>m. row_name m = Some ''eggs'')
     (printed (view_items Works
        (db (add_item Works 739925 [milk 1 2 739924 0] ''eggs'' (Number 12) (Number (- 6)))))) =
     [Row ''eggs'' 12 (- 6) 739925 0 False]"
proof -
  have h: "''eggs'' \<notin> set (map name [milk 1 2 739924 0]) \<and> in_int64 12 \<and> in_int64 (- 6)"
    by (simp add: milk_def in_int64_def)
  from add_then_view
         [where nm = "''eggs''" and st = "[milk 1 2 739924 0]" and q = 12 and t = "- 6"
            and today = 739925 and sto = Works and qi = "Number 12" and ti = "Number (- 6)"
            and nm' = "''eggs''" and q' = 12 and t' = "- 6"]
       h
  show ?thesis by simp
qed

section \<open>Deleting an item\<close>

text \<open>
  Claim C8. With the storage at work: on a name that is not in the table \<^verbatim>\<open>delete_item\<close>
  prints ``Item not found.'' and the table is as before; on the name of a row of a table
  with unique names it prints ``Item ... deleted.'', the table afterwards is the table
  without that one row, and the name is no longer in it.
\<close>

theorem delete_item_spec:
  "(nm \<notin> set (map name st) \<longrightarrow>
      delete_item Works st nm = returns [Item_not_found] st []) \<and>
   (unique_names st \<and> r \<in> set st \<longrightarrow>
      delete_item Works st (name r) = returns [Deleted (name r)] (remove1 r st) [] \<and>
      name r \<notin> set (map name (remove1 r st)))"
proof -
  have absent: "delete_item Works st nm = returns [Item_not_found] st []"
    if "nm \<notin> set (map name st)"
    using that by (simp add: delete_item_def sql_delete_def count_absent filter_absent)
  have present: "delete_item Works st (name r) = returns [Deleted (name r)] (remove1 r st) []"
    if "unique_names st" "r \<in> set st"
    using that by (simp add: delete_item_def sql_delete_def count_present filter_unique)
  from absent present name_remove1 [of st r] show ?thesis by blast
qed

theorem delete_item_spec_witness:
  "''eggs'' \<notin> set (map name [milk 1 2 739924 0]) \<and>
   delete_item Works [milk 1 2 739924 0] ''eggs'' =
     returns [Item_not_found] [milk 1 2 739924 0] [] \<and>
   unique_names [milk 1 2 739924 0] \<and> milk 1 2 739924 0 \<in> set [milk 1 2 739924 0] \<and>
   delete_item Works [milk 1 2 739924 0] ''milk'' = returns [Deleted ''milk''] [] []"
  using delete_item_spec [of "''eggs''" "[milk 1 2 739924 0]" "milk 1 2 739924 0"]
  by (simp add: milk_def unique_names_def)

section \<open>Forecasting\<close>

text \<open>
  Claim C4. With the storage at work: on a name that is not in the table
  \<^verbatim>\<open>predict_restock\<close> prints ``Item not found.''; on the name of a row of a table with
  unique names it prints ``Not enough usage data to predict restock.'' exactly when the
  stored \<^verbatim>\<open>daily_usage\<close> is at most \<open>0\<close>. In both cases nothing else happens.
\<close>

theorem predict_restock_errors:
  "(nm \<notin> set (map name st) \<longrightarrow>
      predict_restock Works today st nm = returns [Item_not_found] st []) \<and>
   (unique_names st \<and> r \<in> set st \<longrightarrow>
      (daily_usage r \<le> 0 \<longrightarrow>
         predict_restock Works today st (name r) = returns [Insufficient_data] st []) \<and>
      (printed (predict_restock Works today st (name r)) = [Insufficient_data]
         \<longleftrightarrow> daily_usage r \<le> 0))"
proof -
  have absent: "predict_restock Works today st nm = returns [Item_not_found] st []"
    if "nm \<notin> set (map name st)"
    using that find_name_None [of nm st] by (simp add: predict_restock_def)
  have present: "(daily_usage r \<le> 0 \<longrightarrow>
         predict_restock Works today st (name r) = returns [Insufficient_data] st []) \<and>
      (printed (predict_restock Works today st (name r)) = [Insufficient_data]
         \<longleftrightarrow> daily_usage r \<le> 0)"
    if "unique_names st" "r \<in> set st"
    using find_unique [OF that]
    by (auto simp: predict_restock_def py_truediv_def float_truediv_def py_float_def returns_def raises_def
             split: sum.splits)
  from absent present show ?thesis by blast
qed

theorem predict_restock_errors_witness:
  "''eggs'' \<notin> set (map name [milk 5 2 739924 0]) \<and>
   predict_restock Works 739925 [milk 5 2 739924 0] ''eggs'' =
     returns [Item_not_found] [milk 5 2 739924 0] [] \<and>
   unique_names [milk 5 2 739924 0] \<and> milk 5 2 739924 0 \<in> set [milk 5 2 739924 0] \<and>
   daily_usage (milk 5 2 739924 0) \<le> 0 \<and>
   predict_restock Works 739925 [milk 5 2 739924 0] ''milk'' =
     returns [Insufficient_data] [milk 5 2 739924 0] []"
  using predict_restock_errors [of "''eggs''" "[milk 5 2 739924 0]" 739925 "milk 5 2 739924 0"]
  by (simp add: milk_def unique_names_def)

text \<open>
  Claim C3, as amended. With the storage at work, for a row of a table with unique names
  whose quantity is below its threshold and whose \<^verbatim>\<open>daily_usage\<close> is positive,
  \<^verbatim>\<open>predict_restock\<close> prints ``... is already below its threshold!'' and no forecast.
  And in every case, the number of days of a forecast that \<^verbatim>\<open>predict_restock\<close> prints
  is not negative.
\<close>

theorem predict_restock_below_threshold:
  "(unique_names st \<and> r \<in> set st \<and> quantity r < threshold r \<and> 0 < daily_usage r \<longrightarrow>
      predict_restock Works today st (name r) =
        returns [Already_below (name r)] st [daily_usage r]) \<and>
   (Estimate n nm' \<in> set (printed (predict_restock sto today st nm)) \<longrightarrow> 0 \<le> n)"
proof -
  have below: "predict_restock Works today st (name r) =
        returns [Already_below (name r)] st [daily_usage r]"
    if "unique_names st" "r \<in> set st" "quantity r < threshold r" "0 < daily_usage r"
    using find_unique [OF that(1,2)] below_threshold_negative [OF that(3,4)] that(4)
    by (simp add: predict_restock_def py_truediv_def float_truediv_def py_float_def)
  have days: "0 \<le> n" if "Estimate n nm' \<in> set (printed (predict_restock sto today st nm))"
    using that
    by (auto simp: predict_restock_def sql_select_one_def py_truediv_def float_truediv_def py_float_def returns_def raises_def
          py_int_def split: sum.splits option.splits if_splits)
  from below days show ?thesis by blast
qed

theorem predict_restock_below_threshold_witness:
  "unique_names [milk 1 5 739924 (1 / 2)] \<and>
   milk 1 5 739924 (1 / 2) \<in> set [milk 1 5 739924 (1 / 2)] \<and>
   quantity (milk 1 5 739924 (1 / 2)) < threshold (milk 1 5 739924 (1 / 2)) \<and>
   0 < daily_usage (milk 1 5 739924 (1 / 2)) \<and>
   predict_restock Works 739925 [milk 1 5 739924 (1 / 2)] ''milk'' =
     returns [Already_below ''milk''] [milk 1 5 739924 (1 / 2)] [1 / 2] \<and>
   Estimate 3 ''milk'' \<in> set (printed (predict_restock Works 739925 [milk 5 2 739924 1] ''milk''))
   \<and> (0::int) \<le> 3"
  using predict_restock_below_threshold
          [where st = "[milk 1 5 739924 (1 / 2)]" and r = "milk 1 5 739924 (1 / 2)"
             and today = 739925]
        predict_restock_below_threshold
          [where n = 3 and nm' = "''milk''" and sto = Works and today = 739925
             and st = "[milk 5 2 739924 1]" and nm = "''milk''"]
  by (simp add: milk_def unique_names_def predict_restock_def py_truediv_def float_truediv_def py_float_def py_int_def
        date_plus_days_def valid_date_def max_ordinal_def returns_def)

text \<open>
  Claim C3 as it was stated fails on a row below its threshold whose \<^verbatim>\<open>daily_usage\<close> is
  \<open>0\<close>, as it is after \<^verbatim>\<open>add_item\<close>: the test \<^verbatim>\<open>daily_usage <= 0\<close> comes first, and
  \<^verbatim>\<open>predict_restock\<close> prints ``Not enough usage data to predict restock.'' instead.
\<close>

theorem predict_restock_below_threshold_counterexample:
  "quantity (milk 1 5 739924 0) < threshold (milk 1 5 739924 0) \<and>
   predict_restock Works 739925 [milk 1 5 739924 0] ''milk'' =
     returns [Insufficient_data] [milk 1 5 739924 0] [] \<and>
   Already_below ''milk'' \<notin> set (printed (predict_restock Works 739925 [milk 1 5 739924 0] ''milk''))"
  by (simp add: milk_def predict_restock_def returns_def)

lemma date_plus_days_ok:
  "valid_date d \<Longrightarrow> 0 \<le> n \<Longrightarrow> d + n \<le> max_ordinal \<Longrightarrow> date_plus_days d n = Inr (d + n)"
  by (simp add: date_plus_days_def valid_date_def max_ordinal_def)

text \<open>
  Claim C2, as amended. With the storage at work, for a row of a table with unique names
  whose \<^verbatim>\<open>daily_usage\<close> is positive, let \<open>days_left\<close> be the quotient
  \<^verbatim>\<open>(quantity - threshold) / daily_usage\<close> as the program computes it, in floating point.
  When \<open>days_left\<close> is not negative and today plus \<open>\<lfloor>days_left\<rfloor>\<close> days is still a date
  (not after 9999-12-31), \<^verbatim>\<open>predict_restock\<close> prints a forecast of \<open>\<lfloor>days_left\<rfloor>\<close> days
  and the date that many days after today. The witness is the case of the
  specification: quantity 5, threshold 2, daily usage 1 gives 3 days and the date 3 days
  after today.
\<close>

theorem predict_restock_forecast:
  assumes "unique_names st" and "r \<in> set st" and "0 < daily_usage r"
    and "days_left = round_float (py_float (quantity r - threshold r) / daily_usage r)"
    and "0 \<le> days_left"
    and "valid_date today"
    and "today + \<lfloor>days_left\<rfloor> \<le> max_ordinal"
  shows "predict_restock Works today st (name r) =
           returns [Estimate \<lfloor>days_left\<rfloor> (name r), Restock_date (today + \<lfloor>days_left\<rfloor>)]
                   st [daily_usage r]"
proof -
  have sel: "find (\<lambda>x. name x = name r) st = Some r"
    using assms(1,2) by (rule find_unique)
  have trunc: "py_int days_left = \<lfloor>days_left\<rfloor>"
    using assms(5) by (simp add: py_int_def)
  have "0 \<le> \<lfloor>days_left\<rfloor>"
    using assms(5) by simp
  then have date: "date_plus_days today \<lfloor>days_left\<rfloor> = Inr (today + \<lfloor>days_left\<rfloor>)"
    using assms(6,7) by (simp add: date_plus_days_ok)
  have quot: "float_truediv (py_float (quantity r - threshold r)) (daily_usage r) = Inr days_left"
    using assms(3,4) by (simp add: float_truediv_def)
  have nonneg: "\<not> days_left < 0" "\<not> daily_usage r \<le> 0"
    using assms(3,5) by simp_all
  show ?thesis
    unfolding predict_restock_def
    by (simp only: sql_select_one_Works sel quot trunc date nonneg sum.case option.case if_False)
qed

theorem predict_restock_forecast_witness:
  "unique_names [milk 5 2 739924 1] \<and> milk 5 2 739924 1 \<in> set [milk 5 2 739924 1] \<and>
   0 < daily_usage (milk 5 2 739924 1) \<and>
   3 = round_float
         (py_float (quantity (milk 5 2 739924 1) - threshold (milk 5 2 739924 1)) /
          daily_usage (milk 5 2 739924 1)) \<and>
   (0::real) \<le> 3 \<and> valid_date 739925 \<and> 739925 + \<lfloor>3::real\<rfloor> \<le> max_ordinal \<and>
   predict_restock Works 739925 [milk 5 2 739924 1] ''milk'' =
     returns [Estimate 3 ''milk'', Restock_date 739928] [milk 5 2 739924 1] [1]"
proof -
  have h: "unique_names [milk 5 2 739924 1]" "milk 5 2 739924 1 \<in> set [milk 5 2 739924 1]"
    "0 < daily_usage (milk 5 2 739924 1)"
    "3 = round_float
         (py_float (quantity (milk 5 2 739924 1) - threshold (milk 5 2 739924 1)) /
          daily_usage (milk 5 2 739924 1))"
    "(0::real) \<le> 3"
    "valid_date 739925"
    "739925 + \<lfloor>3::real\<rfloor> \<le> max_ordinal"
    by (simp_all add: milk_def unique_names_def valid_date_def max_ordinal_def py_float_def)
  from predict_restock_forecast [OF h] h show ?thesis
    by (simp add: milk_def)
qed

text \<open>
  Claim C2 as it was stated fails in two ways. When the forecast lies beyond the last
  date of \<^verbatim>\<open>datetime.date\<close> (quantity 4000000, threshold 0, daily usage 1, so that
  \<open>days_left\<close> is 4000000), the addition \<^verbatim>\<open>date + timedelta(days=4000000)\<close> raises
  \<^verbatim>\<open>OverflowError\<close> before anything is printed, and no forecast is returned. And the
  number of days is the floor of the rounded quotient, not of the quotient: with
  quantity 1, threshold 0 and the float \<open>0.2\<close> as daily usage, the quotient is below 5,
  its floor is 4, and \<^verbatim>\<open>predict_restock\<close> prints 5 days.
\<close>

theorem predict_restock_forecast_counterexample:
  "0 < daily_usage (milk 4000000 0 739924 1) \<and>
   0 \<le> real_of_int (quantity (milk 4000000 0 739924 1) - threshold (milk 4000000 0 739924 1)) /
        daily_usage (milk 4000000 0 739924 1) \<and>
   valid_date 739925 \<and>
   predict_restock Works 739925 [milk 4000000 0 739924 1] ''milk'' =
     raises [] [milk 4000000 0 739924 1] Overflow_Error [1] \<and>
   \<lfloor>real_of_int (quantity (milk 1 0 739924 (3602879701896397 / 18014398509481984)) -
                 threshold (milk 1 0 739924 (3602879701896397 / 18014398509481984))) /
     daily_usage (milk 1 0 739924 (3602879701896397 / 18014398509481984))\<rfloor> = 4 \<and>
   printed (predict_restock Works 739925
              [milk 1 0 739924 (3602879701896397 / 18014398509481984)] ''milk'') =
     [Estimate 5 ''milk'', Restock_date 739930]"
  by (simp add: milk_def predict_restock_def float_truediv_def py_float_def py_int_def
        date_plus_days_def valid_date_def max_ordinal_def round_float_examples
        returns_def raises_def)

section \<open>Updating an item\<close>

lemma find_map_update:
  "find (\<lambda>x. name x = nm) st = Some r \<Longrightarrow>
   find (\<lambda>x. name x = nm)
     (map (\<lambda>x. if name x = nm
                then x\<lparr>quantity := q, threshold := t, last_updated := d, daily_usage := u\<rparr>
                else x) st) =
   Some (r\<lparr>quantity := q, threshold := t, last_updated := d, daily_usage := u\<rparr>)"
  by (induction st) (auto split: if_splits)

lemma update_item_success:
  assumes "unique_names st" and "r \<in> set st"
    and "Updated nm' q t du \<in> set (printed (update_item sel upd today st (name r) qi ti))"
  shows "parse_or_keep qi (quantity r) = Some q \<and> parse_or_keep ti (threshold r) = Some t \<and>
         du = (if 0 < today - last_updated r \<and> q \<noteq> quantity r
               then real_of_int (quantity r - q) / real_of_int (today - last_updated r)
               else daily_usage r) \<and>
         find (\<lambda>x. name x = name r) (db (update_item sel upd today st (name r) qi ti)) =
           Some (r\<lparr>quantity := q, threshold := t, last_updated := today, daily_usage := du\<rparr>)"
proof -
  have sel: "find (\<lambda>x. name x = name r) st = Some r"
    using assms(1,2) by (rule find_unique)
  from assms(3) have works: "sel = Works"
    by (cases sel) (simp_all add: update_item_def raises_def)
  from assms(3) sel works obtain q' t' where
    parsed: "parse_or_keep qi (quantity r) = Some q'" "parse_or_keep ti (threshold r) = Some t'"
    by (auto simp: update_item_def returns_def Let_def split: option.splits)
  show ?thesis
    using assms(3) sel works parsed find_map_update [OF sel]
    by (auto simp: update_item_def sql_update_def py_truediv_def float_truediv_def py_float_def returns_def raises_def Let_def
             split: if_splits)
qed

lemma update_item_succeeds:
  assumes "unique_names st" and "r \<in> set st"
    and "parse_or_keep qi (quantity r) = Some q" and "parse_or_keep ti (threshold r) = Some t"
    and "in_int64 q" and "in_int64 t"
  shows "Updated (name r) q t
           (if 0 < today - last_updated r \<and> q \<noteq> quantity r
            then real_of_int (quantity r - q) / real_of_int (today - last_updated r)
            else daily_usage r)
         \<in> set (printed (update_item Works Works today st (name r) qi ti))"
  using find_unique [OF assms(1,2)] assms(3-6)
  by (simp add: update_item_def sql_update_def py_truediv_def float_truediv_def py_float_def returns_def Let_def)



text \<open>
  Claim C7, as amended. For a row of a table with unique names, after an \<^verbatim>\<open>update_item\<close>
  that succeeded the row's \<^verbatim>\<open>last_updated\<close> is today, whether or not the quantity changed;
  and it is not earlier than the value stored before whenever today is not earlier than
  that value.
\<close>

theorem update_item_last_updated:
  assumes "unique_names st" and "r \<in> set st"
    and "Updated (name r) q t du \<in> set (printed (update_item sel upd today st (name r) qi ti))"
  shows "map_option last_updated
           (find (\<lambda>x. name x = name r) (db (update_item sel upd today st (name r) qi ti))) =
           Some today \<and>
         (last_updated r \<le> today \<longrightarrow>
            map_option (\<lambda>x. last_updated r \<le> last_updated x)
              (find (\<lambda>x. name x = name r) (db (update_item sel upd today st (name r) qi ti))) =
              Some True)"
  using update_item_success [OF assms] by simp

theorem update_item_last_updated_witness:
  "unique_names [milk 10 2 739924 0] \<and> milk 10 2 739924 0 \<in> set [milk 10 2 739924 0] \<and>
   Updated ''milk'' 10 2 0 \<in>
     set (printed (update_item Works Works 739925 [milk 10 2 739924 0] ''milk'' Blank Blank)) \<and>
   last_updated (milk 10 2 739924 0) \<le> 739925 \<and>
   db (update_item Works Works 739925 [milk 10 2 739924 0] ''milk'' Blank Blank) =
     [milk 10 2 739925 0] \<and>
   map_option last_updated
     (find (\<lambda>x. name x = ''milk'')
        (db (update_item Works Works 739925 [milk 10 2 739924 0] ''milk'' Blank Blank))) =
     Some 739925"
proof -
  have h: "unique_names [milk 10 2 739924 0]" "milk 10 2 739924 0 \<in> set [milk 10 2 739924 0]"
    by (simp_all add: milk_def unique_names_def)
  have n: "name (milk 10 2 739924 0) = ''milk''" "last_updated (milk 10 2 739924 0) \<le> 739925"
    by (simp_all add: milk_def)
  have up: "Updated ''milk'' 10 2 0 \<in>
     set (printed (update_item Works Works 739925 [milk 10 2 739924 0] ''milk'' Blank Blank))"
    "db (update_item Works Works 739925 [milk 10 2 739924 0] ''milk'' Blank Blank) =
     [milk 10 2 739925 0]"
    by (simp_all add: milk_def update_item_def sql_update_def in_int64_def py_truediv_def float_truediv_def py_float_def
          returns_def Let_def)
  from update_item_last_updated [OF h, of 10 2 0 Works Works 739925 Blank Blank] h up n
  show ?thesis by simp
qed

text \<open>
  Claim C7 as it was stated fails when the clock reads a date before the one stored
  (the clock was set back, or the time zone changed): \<^verbatim>\<open>update_item\<close> compares the two
  dates only to decide whether to recompute the rate, and stores today's date, here one
  day before the previous \<^verbatim>\<open>last_updated\<close>.
\<close>

theorem update_item_last_updated_counterexample:
  "Updated ''milk'' 7 2 0 \<in>
     set (printed (update_item Works Works 739923 [milk 10 2 739924 0] ''milk'' (Number 7) Blank)) \<and>
   db (update_item Works Works 739923 [milk 10 2 739924 0] ''milk'' (Number 7) Blank) =
     [milk 7 2 739923 0] \<and>
   last_updated (milk 7 2 739923 0) < last_updated (milk 10 2 739924 0)"
  by (simp add: milk_def update_item_def sql_update_def in_int64_def py_truediv_def float_truediv_def py_float_def
        returns_def Let_def)

section \<open>Errors that leave an operation\<close>

text \<open>
  Claim C9 says that every error is caught where it occurs and reported as a message.
  The code does so only in \<^verbatim>\<open>add_item\<close> and around the \<^verbatim>\<open>UPDATE\<close> of \<^verbatim>\<open>update_item\<close>, where
  a failure of the storage becomes the message ``Database error: ...''. When the storage
  fails in \<^verbatim>\<open>delete_item\<close>, \<^verbatim>\<open>view_items\<close>, \<^verbatim>\<open>predict_restock\<close> or the \<^verbatim>\<open>SELECT\<close> of
  \<^verbatim>\<open>update_item\<close>, nothing is printed and the exception leaves the operation. So does
  the \<^verbatim>\<open>OverflowError\<close> of a forecast beyond the last date and of a quantity outside the
  64-bit range.
\<close>

theorem errors_propagate:
  "delete_item Fails st nm = raises [] st Sqlite_Error [] \<and>
   predict_restock Fails today st nm = raises [] st Sqlite_Error [] \<and>
   view_items Fails st = raises [] st Sqlite_Error [] \<and>
   update_item Fails upd today st nm qi ti = raises [] st Sqlite_Error [] \<and>
   add_item Fails today st nm (Number q) (Number t) = returns [Database_error] st [] \<and>
   predict_restock Works 739925 [milk 4000000 0 739924 1] ''milk'' =
     raises [] [milk 4000000 0 739924 1] Overflow_Error [1] \<and>
   add_item Works 739925 [] ''milk'' (Number (2 ^ 63)) (Number 2) =
     raises [] [] Overflow_Error []"
  by (simp add: delete_item_def sql_delete_def predict_restock_def view_items_def
        sql_select_all_def update_item_def add_item_def sql_insert_def is_sqlite_error_def
        milk_def py_truediv_def float_truediv_def py_float_def py_int_def date_plus_days_def valid_date_def max_ordinal_def
        in_int64_def)

section \<open>Division\<close>

lemma update_item_divisors:
  "d \<in> set (divisors (update_item sel upd today st nm qi ti)) \<Longrightarrow> 0 < d"
  by (auto simp: update_item_def sql_select_one_def sql_update_def py_truediv_def float_truediv_def py_float_def returns_def
        raises_def Let_def split: sum.splits option.splits if_splits)

lemma update_item_no_zero_division:
  "raised (update_item sel upd today st nm qi ti) \<noteq> Some Zero_Division_Error"
  by (auto simp: update_item_def sql_select_one_def sql_update_def py_truediv_def float_truediv_def py_float_def returns_def
        raises_def Let_def split: sum.splits option.splits if_splits)

lemma predict_restock_divisors:
  "d \<in> set (divisors (predict_restock sto today st nm)) \<Longrightarrow> 0 < d"
  by (auto simp: predict_restock_def sql_select_one_def py_truediv_def float_truediv_def py_float_def returns_def raises_def
        split: sum.splits option.splits if_splits)

lemma predict_restock_no_zero_division:
  "raised (predict_restock sto today st nm) \<noteq> Some Zero_Division_Error"
  by (auto simp: predict_restock_def sql_select_one_def py_truediv_def float_truediv_def py_float_def date_plus_days_def
        returns_def raises_def split: sum.splits option.splits if_splits)

text \<open>
  Claim C10. Neither \<^verbatim>\<open>update_item\<close> nor \<^verbatim>\<open>predict_restock\<close> ever raises
  \<^verbatim>\<open>ZeroDivisionError\<close>, and every divisor of a division they evaluate is strictly
  positive; the other three operations divide nothing.
\<close>

theorem no_division_by_zero:
  "raised (update_item sel upd today st nm qi ti) \<noteq> Some Zero_Division_Error \<and>
   (\<forall>d \<in> set (divisors (update_item sel upd today st nm qi ti)). 0 < d) \<and>
   raised (predict_restock sto today st nm) \<noteq> Some Zero_Division_Error \<and>
   (\<forall>d \<in> set (divisors (predict_restock sto today st nm)). 0 < d) \<and>
   divisors (add_item sto today st nm qi ti) = [] \<and>
   divisors (delete_item sto st nm) = [] \<and>
   divisors (view_items sto st) = []"
proof (intro conjI ballI)
  show "raised (update_item sel upd today st nm qi ti) \<noteq> Some Zero_Division_Error"
    by (rule update_item_no_zero_division)
  show "raised (predict_restock sto today st nm) \<noteq> Some Zero_Division_Error"
    by (rule predict_restock_no_zero_division)
  show "0 < d" if "d \<in> set (divisors (update_item sel upd today st nm qi ti))" for d
    using that by (rule update_item_divisors)
  show "0 < d" if "d \<in> set (divisors (predict_restock sto today st nm))" for d
    using that by (rule predict_restock_divisors)
  show "divisors (add_item sto today st nm qi ti) = []"
    by (simp add: add_item_def returns_def raises_def split: option.splits sum.splits)
  show "divisors (delete_item sto st nm) = []"
    by (simp add: delete_item_def returns_def raises_def split: sum.splits prod.splits)
  show "divisors (view_items sto st) = []"
    by (simp add: view_items_def returns_def raises_def split: sum.splits)
qed

theorem no_division_by_zero_witness:
  "divisors (update_item Works Works 739926 [milk 10 2 739924 0] ''milk'' (Number 7) Blank) = [2] \<and>
   divisors (predict_restock Works 739926 [milk 5 2 739924 (1 / 2)] ''milk'') = [1 / 2] \<and>
   (0::real) < 2 \<and> (0::real) < 1 / 2 \<and>
   raised (update_item Works Works 739926 [milk 10 2 739924 0] ''milk'' (Number 7) Blank) \<noteq>
     Some Zero_Division_Error \<and>
   raised (predict_restock Works 739926 [milk 5 2 739924 (1 / 2)] ''milk'') \<noteq>
     Some Zero_Division_Error"
proof -
  have u: "divisors (update_item Works Works 739926 [milk 10 2 739924 0] ''milk'' (Number 7) Blank)
           = [2]"
    by (simp add: milk_def update_item_def sql_update_def in_int64_def py_truediv_def float_truediv_def py_float_def
          returns_def Let_def)
  have p: "divisors (predict_restock Works 739926 [milk 5 2 739924 (1 / 2)] ''milk'') = [1 / 2]"
    by (simp add: milk_def predict_restock_def py_truediv_def float_truediv_def py_float_def py_int_def date_plus_days_def
          valid_date_def max_ordinal_def returns_def)
  from no_division_by_zero [of Works Works 739926 "[milk 10 2 739924 0]" "''milk''" "Number 7" Blank]
    no_division_by_zero [of _ _ 739926 "[milk 5 2 739924 (1 / 2)]" "''milk''" _ _ Works]
    u p
  show ?thesis by simp
qed

section \<open>The names stay unique\<close>

lemma unique_names_add_item:
  "unique_names st \<Longrightarrow> unique_names (db (add_item sto today st nm qi ti))"
  by (auto simp: add_item_def sql_insert_def returns_def raises_def unique_names_def
        split: option.splits)

lemma name_update:
  "name \<circ> (\<lambda>r. if name r = nm
                  then r\<lparr>quantity := q, threshold := t, last_updated := d, daily_usage := u\<rparr>
                  else r) = name"
  by (auto simp: fun_eq_iff)

lemma unique_names_update_item:
  "unique_names st \<Longrightarrow> unique_names (db (update_item sel upd today st nm qi ti))"
  by (auto simp: update_item_def sql_select_one_def sql_update_def returns_def raises_def
        unique_names_def Let_def name_update py_truediv_def float_truediv_def py_float_def
        split: option.splits sum.splits if_splits)

lemma unique_names_delete_item:
  "unique_names st \<Longrightarrow> unique_names (db (delete_item sto st nm))"
  by (auto simp: delete_item_def sql_delete_def returns_def raises_def unique_names_def
        distinct_map_filter)

lemma db_view_items: "db (view_items sto st) = st"
  by (simp add: view_items_def returns_def raises_def split: sum.splits)

lemma db_predict_restock: "db (predict_restock sto today st nm) = st"
  by (simp add: predict_restock_def returns_def raises_def split: sum.splits option.splits)

end
